theory Spec2Isabelle
  imports Main
begin

section \<open>Values, property reads and strict equality\<close>

text \<open>
  The object API of \<^verbatim>\<open>src/api/objects/ObjectAPI.js\<close> reads two properties of the keys it is
  handed, \<^verbatim>\<open>identifier\<close> and \<^verbatim>\<open>namespace\<close>, compares them with \<^verbatim>\<open>===\<close> and \<^verbatim>\<open>!==\<close>, and
  uses the namespace as a property name of the \<^verbatim>\<open>providers\<close> object. The values below are the
  JavaScript values that matter for this: \<^verbatim>\<open>undefined\<close>, \<^verbatim>\<open>null\<close>, strings, and objects.
  An object carries its address (its identity, which is what \<^verbatim>\<open>===\<close> compares), its own
  data properties in order, and what converting it to a property name does: the string
  that its \<^verbatim>\<open>toString\<close> or \<^verbatim>\<open>valueOf\<close> produces, or the exception that the conversion
  throws. Numbers and booleans are left out of the value universe.
\<close>

text \<open>
  A thrown exception is a \<open>js_error\<close>: the \<^verbatim>\<open>TypeError\<close> of a property read on
  \<^verbatim>\<open>undefined\<close> or \<^verbatim>\<open>null\<close> or of a failed conversion, or \<^verbatim>\<open>new Error(message)\<close>.
\<close>

datatype js_error = TypeError | Error string

datatype jsval =
    Undefined
  | Null
  | Str string
  | Obj nat "(string \<times> jsval) list" "js_error + string"

text \<open>
  \<^verbatim>\<open>v.p\<close> for the property names the program reads (\<^verbatim>\<open>identifier\<close>, \<^verbatim>\<open>namespace\<close>): a
  string primitive has neither, an object has what its property list says.
\<close>

definition own_prop :: "(string \<times> jsval) list \<Rightarrow> string \<Rightarrow> jsval" where
  "own_prop fs p = (case map_of fs p of None \<Rightarrow> Undefined | Some v \<Rightarrow> v)"

fun get_prop :: "jsval \<Rightarrow> string \<Rightarrow> js_error + jsval" where
  "get_prop Undefined p = Inl TypeError"
| "get_prop Null p = Inl TypeError"
| "get_prop (Str s) p = Inr Undefined"
| "get_prop (Obj a fs c) p = Inr (own_prop fs p)"

text \<open>\<^verbatim>\<open>a === b\<close>: primitives by value, objects by identity.\<close>

fun strict_eq :: "jsval \<Rightarrow> jsval \<Rightarrow> bool" where
  "strict_eq Undefined Undefined = True"
| "strict_eq Null Null = True"
| "strict_eq (Str s) (Str t) = (s = t)"
| "strict_eq (Obj a fs c) (Obj b gs d) = (a = b)"
| "strict_eq v w = False"

text \<open>
  The property name that \<^verbatim>\<open>obj[v]\<close> looks up; for an object the conversion runs the
  object's own code and may throw.
\<close>

fun ToPropertyKey :: "jsval \<Rightarrow> js_error + string" where
  "ToPropertyKey Undefined = Inr ''undefined''"
| "ToPropertyKey Null = Inr ''null''"
| "ToPropertyKey (Str s) = Inr s"
| "ToPropertyKey (Obj a fs c) = c"

text \<open>
  The identifier shape that the source documents (\<^verbatim>\<open>@typedef Identifier\<close>): an object with
  the string properties \<^verbatim>\<open>namespace\<close> and \<^verbatim>\<open>key\<close>, here the object literal at address
  \<open>a\<close>, which converts to the string \<^verbatim>\<open>[object Object]\<close>.
\<close>

definition Identifier :: "nat \<Rightarrow> string \<Rightarrow> string \<Rightarrow> jsval" where
  "Identifier a ns k = Obj a [(''namespace'', Str ns), (''key'', Str k)] (Inr ''[object Object]'')"

section \<open>Providers and the state of the API\<close>

datatype crud_method = Save | Delete | Get

text \<open>The strings of the array that the dispatcher is generated from.\<close>

fun method_str :: "crud_method \<Rightarrow> string" where
  "method_str Save = ''save''"
| "method_str Delete = ''delete''"
| "method_str Get = ''get''"

text \<open>
  A registered provider is an object whose methods \<^verbatim>\<open>get\<close>, \<^verbatim>\<open>save\<close> and \<^verbatim>\<open>delete\<close> are
  all optional; a method takes the argument list and returns a value of type \<open>'r\<close> (in
  practice a promise), about which the API knows nothing. A provider is taken to be an
  object literal with no other property than these three.
\<close>

record 'r provider_object =
  get :: "(jsval list \<Rightarrow> 'r) option"
  save :: "(jsval list \<Rightarrow> 'r) option"
  delete :: "(jsval list \<Rightarrow> 'r) option"

text \<open>
  \<^verbatim>\<open>this.rootProvider\<close> is one fixed object made by the constructor; every other provider
  comes from a caller.
\<close>

datatype 'r provider = RootProvider | External "'r provider_object"

text \<open>
  What a read \<^verbatim>\<open>this.providers[name]\<close> can find. The constructor makes \<^verbatim>\<open>providers\<close> with
  \<^verbatim>\<open>{}\<close>, an ordinary object whose prototype is \<^verbatim>\<open>Object.prototype\<close>, so a read that finds
  no own property goes on to the prototype chain: it can find a built-in function of
  \<^verbatim>\<open>Object.prototype\<close>, through the accessor \<^verbatim>\<open>__proto__\<close> the prototype itself, and,
  once a provider has become the prototype, a method function of that provider.
\<close>

datatype 'r found =
    Provider "'r provider"
  | ObjectPrototype
  | ObjectPrototypeMember string
  | MethodFunction "'r provider" crud_method

text \<open>The names of the data properties of \<^verbatim>\<open>Object.prototype\<close>, all of them functions.\<close>

definition Object_prototype_functions :: "string list" where
  "Object_prototype_functions =
     [''constructor'', ''__defineGetter__'', ''__defineSetter__'', ''hasOwnProperty'',
      ''__lookupGetter__'', ''__lookupSetter__'', ''isPrototypeOf'', ''propertyIsEnumerable'',
      ''toString'', ''valueOf'', ''toLocaleString'']"

text \<open>
  The fields of an \<^verbatim>\<open>ObjectAPI\<close>. \<^verbatim>\<open>providers\<close> holds the own properties of the object
  used as a dictionary from namespace to provider, \<open>providers_prototype\<close> its prototype:
  \<open>None\<close> is \<^verbatim>\<open>Object.prototype\<close>, as \<^verbatim>\<open>{}\<close> makes it, \<open>Some p\<close> is a provider that an
  assignment to \<^verbatim>\<open>__proto__\<close> has put there. \<^verbatim>\<open>fallbackProvider\<close> is \<^verbatim>\<open>undefined\<close> until
  it is set.
\<close>

record 'r api =
  providers :: "string \<rightharpoonup> 'r provider"
  providers_prototype :: "'r provider option"
  rootRegistry :: "jsval list"
  fallbackProvider :: "'r provider option"

definition ObjectAPI :: "'r api" where
  "ObjectAPI = \<lparr>providers = Map.empty, providers_prototype = None, rootRegistry = [],
     fallbackProvider = None\<rparr>"

text \<open>
  A read of \<open>name\<close> that has reached \<^verbatim>\<open>Object.prototype\<close>, for the object whose prototype
  is \<open>proto\<close>: the getter of \<^verbatim>\<open>__proto__\<close> returns that prototype.
\<close>

definition Object_prototype_get :: "'r provider option \<Rightarrow> string \<Rightarrow> 'r found option" where
  "Object_prototype_get proto name =
     (if name = ''__proto__''
      then Some (case proto of None \<Rightarrow> ObjectPrototype | Some p \<Rightarrow> Provider p)
      else if name \<in> set Object_prototype_functions then Some (ObjectPrototypeMember name)
      else None)"

text \<open>The own properties of a provider: its methods, as far as it has them.\<close>

fun provider_own :: "'r provider \<Rightarrow> string \<Rightarrow> 'r found option" where
  "provider_own RootProvider name =
     (if name = ''get'' then Some (MethodFunction RootProvider Get) else None)"
| "provider_own (External p) name =
     (if name = ''get'' \<and> get p \<noteq> None then Some (MethodFunction (External p) Get)
      else if name = ''save'' \<and> save p \<noteq> None then Some (MethodFunction (External p) Save)
      else if name = ''delete'' \<and> delete p \<noteq> None
        then Some (MethodFunction (External p) Delete)
      else None)"

text \<open>
  \<^verbatim>\<open>this.providers[name]\<close>: the own property, else what the prototype chain has; \<open>None\<close>
  is \<^verbatim>\<open>undefined\<close>.
\<close>

definition providers_get :: "'r api \<Rightarrow> string \<Rightarrow> 'r found option" where
  "providers_get this name =
     (case providers this name of
        Some p \<Rightarrow> Some (Provider p)
      | None \<Rightarrow>
          (case providers_prototype this of
             None \<Rightarrow> Object_prototype_get None name
           | Some q \<Rightarrow>
               (case provider_own q name of
                  Some f \<Rightarrow> Some f
                | None \<Rightarrow> Object_prototype_get (Some q) name)))"

definition supersecretSetFallbackProvider :: "'r provider option \<Rightarrow> 'r api \<Rightarrow> 'r api" where
  "supersecretSetFallbackProvider p this = this\<lparr>fallbackProvider := p\<rparr>"

text \<open>
  \<^verbatim>\<open>getProvider(key)\<close>: the value returned is what the read of \<^verbatim>\<open>providers\<close> found, a
  provider or not, or the fallback provider, or \<^verbatim>\<open>undefined\<close> (\<open>None\<close>). The two property
  reads throw on \<^verbatim>\<open>undefined\<close> and \<^verbatim>\<open>null\<close>, and the conversion of the namespace to a
  property name can throw. Everything a read can find is an object or a function and so
  truthy: \<^verbatim>\<open>||\<close> falls through to the fallback exactly when the read finds nothing.
\<close>

definition getProvider :: "'r api \<Rightarrow> jsval \<Rightarrow> js_error + 'r found option" where
  "getProvider this key =
     (case get_prop key ''identifier'' of
        Inl e \<Rightarrow> Inl e
      | Inr i \<Rightarrow>
          if strict_eq i (Str ''ROOT'') then Inr (Some (Provider RootProvider))
          else (case get_prop key ''namespace'' of
                  Inl e \<Rightarrow> Inl e
                | Inr ns \<Rightarrow>
                    (case ToPropertyKey ns of
                       Inl e \<Rightarrow> Inl e
                     | Inr name \<Rightarrow>
                         (case providers_get this name of
                            Some v \<Rightarrow> Inr (Some v)
                          | None \<Rightarrow> Inr (map_option Provider (fallbackProvider this))))))"

text \<open>
  \<^verbatim>\<open>this.providers[namespace] = provider\<close>. For the name \<^verbatim>\<open>__proto__\<close> the assignment runs
  the setter inherited from \<^verbatim>\<open>Object.prototype\<close>: no own property is made and the provider
  becomes the prototype. Every other name becomes an own property: the inherited
  properties of those names are writable data properties, which an assignment shadows.
\<close>

definition addProvider :: "string \<Rightarrow> 'r provider \<Rightarrow> 'r api \<Rightarrow> 'r api" where
  "addProvider namespace provider this =
     (if namespace = ''__proto__'' then this\<lparr>providers_prototype := Some provider\<rparr>
      else this\<lparr>providers := (providers this)(namespace \<mapsto> provider)\<rparr>)"

section \<open>The dispatched operations\<close>

text \<open>
  What the root provider's \<^verbatim>\<open>get\<close> resolves with. \<^verbatim>\<open>composition\<close> is the registry array
  itself, read through the bound \<^verbatim>\<open>this\<close> when the method runs.
\<close>

record root_object =
  name :: string
  type :: string
  composition :: "jsval list"

datatype 'a promise = Resolved 'a | Rejected jsval

text \<open>
  What a dispatched call returns: the promise made by the root provider, or whatever an
  external provider's method returned.
\<close>

datatype 'r returned = RootPromise "root_object promise" | Returned 'r

definition rootProvider_get :: "'r api \<Rightarrow> jsval list \<Rightarrow> root_object promise" where
  "rootProvider_get this args =
     Resolved \<lparr>name = ''The root object'', type = ''root'', composition = rootRegistry this\<rparr>"

text \<open>
  \<^verbatim>\<open>provider[method]\<close>, as a function of the API the root provider is bound to and of the
  argument list; \<open>None\<close> when the provider has no such property. The root provider has
  \<^verbatim>\<open>get\<close> only.
\<close>

fun provider_method ::
  "'r provider \<Rightarrow> crud_method \<Rightarrow> ('r api \<Rightarrow> jsval list \<Rightarrow> 'r returned) option" where
  "provider_method RootProvider Get = Some (\<lambda>this args. RootPromise (rootProvider_get this args))"
| "provider_method RootProvider Save = None"
| "provider_method RootProvider Delete = None"
| "provider_method (External p) Get = map_option (\<lambda>f this args. Returned (f args)) (get p)"
| "provider_method (External p) Save = map_option (\<lambda>f this args. Returned (f args)) (save p)"
| "provider_method (External p) Delete = map_option (\<lambda>f this args. Returned (f args)) (delete p)"

text \<open>
  \<^verbatim>\<open>provider[method]\<close> for whatever \<^verbatim>\<open>getProvider\<close> returned: a function and
  \<^verbatim>\<open>Object.prototype\<close> have no property of these three names.
\<close>

fun found_method ::
  "'r found \<Rightarrow> crud_method \<Rightarrow> ('r api \<Rightarrow> jsval list \<Rightarrow> 'r returned) option" where
  "found_method (Provider p) m = provider_method p m"
| "found_method ObjectPrototype m = None"
| "found_method (ObjectPrototypeMember s) m = None"
| "found_method (MethodFunction p n) m = None"

text \<open>
  The function that the \<^verbatim>\<open>forEach\<close> over \<^verbatim>\<open>['save', 'delete', 'get']\<close> installs as
  \<^verbatim>\<open>ObjectAPI.prototype[method]\<close>. \<^verbatim>\<open>arguments[0]\<close> is \<^verbatim>\<open>undefined\<close> when the call has
  no argument. \<open>Inl\<close> is a thrown exception, \<open>Inr\<close> the returned value.
\<close>

definition dispatcher :: "crud_method \<Rightarrow> 'r api \<Rightarrow> jsval list \<Rightarrow> js_error + 'r returned" where
  "dispatcher m this arguments =
     (let key = (case arguments of [] \<Rightarrow> Undefined | k # ks \<Rightarrow> k) in
      case getProvider this key of
        Inl e \<Rightarrow> Inl e
      | Inr None \<Rightarrow> Inl (Error ''No Provider Matched'')
      | Inr (Some provider) \<Rightarrow>
          (case found_method provider m of
             None \<Rightarrow> Inl (Error (''Provider does not support ['' @ method_str m @ ''].''))
           | Some f \<Rightarrow> Inr (f this arguments)))"

section \<open>The root registry\<close>

definition addRoot :: "jsval \<Rightarrow> 'r api \<Rightarrow> 'r api" where
  "addRoot key this = this\<lparr>rootRegistry := key # rootRegistry this\<rparr>"

text \<open>
  The callback of \<^verbatim>\<open>removeRoot\<close>'s filter: whether the entry \<open>k\<close> stays. The reads happen
  in the order of the source, and \<^verbatim>\<open>||\<close> skips the namespaces when the identifiers differ.
\<close>

definition keep_root :: "jsval \<Rightarrow> jsval \<Rightarrow> js_error + bool" where
  "keep_root key k =
     (case get_prop k ''identifier'' of
        Inl e \<Rightarrow> Inl e
      | Inr ki \<Rightarrow>
          (case get_prop key ''identifier'' of
             Inl e \<Rightarrow> Inl e
           | Inr keyi \<Rightarrow>
               if \<not> strict_eq ki keyi then Inr True
               else (case get_prop k ''namespace'' of
                       Inl e \<Rightarrow> Inl e
                     | Inr kn \<Rightarrow>
                         (case get_prop key ''namespace'' of
                            Inl e \<Rightarrow> Inl e
                          | Inr keyn \<Rightarrow> Inr (\<not> strict_eq kn keyn)))))"

text \<open>\<^verbatim>\<open>Array.prototype.filter\<close> with a callback that may throw: left to right.\<close>

fun filter_js :: "('a \<Rightarrow> js_error + bool) \<Rightarrow> 'a list \<Rightarrow> js_error + 'a list" where
  "filter_js f [] = Inr []"
| "filter_js f (x # xs) =
     (case f x of
        Inl e \<Rightarrow> Inl e
      | Inr b \<Rightarrow>
          (case filter_js f xs of
             Inl e \<Rightarrow> Inl e
           | Inr ys \<Rightarrow> Inr (if b then x # ys else ys)))"

text \<open>A throw leaves \<^verbatim>\<open>this.rootRegistry\<close> unassigned, so the API is as it was.\<close>

definition removeRoot :: "jsval \<Rightarrow> 'r api \<Rightarrow> js_error + 'r api" where
  "removeRoot key this =
     (case filter_js (keep_root key) (rootRegistry this) of
        Inl e \<Rightarrow> Inl e
      | Inr ks \<Rightarrow> Inr (this\<lparr>rootRegistry := ks\<rparr>))"

section \<open>Example configurations\<close>

text \<open>
  Providers and APIs set up with them, for the concrete instances below: \<open>reader\<close>
  implements \<^verbatim>\<open>get\<close> only, \<open>writer\<close> implements \<^verbatim>\<open>save\<close> and \<^verbatim>\<open>delete\<close> only,
  \<open>archive\<close> lacks \<^verbatim>\<open>save\<close> only and \<open>ledger\<close> lacks \<^verbatim>\<open>delete\<close> only. \<open>configured\<close> has
  \<open>reader\<close> registered for the namespace \<^verbatim>\<open>n\<close> and \<open>writer\<close> as fallback; \<open>stocked\<close> has
  in addition \<open>archive\<close> for the namespace \<^verbatim>\<open>a\<close> and \<open>ledger\<close> for the namespace \<^verbatim>\<open>l\<close>.
\<close>

definition reader :: "nat provider" where
  "reader = External \<lparr>get = Some (\<lambda>args. length args), save = None, delete = None\<rparr>"

definition writer :: "nat provider" where
  "writer = External \<lparr>get = None, save = Some (\<lambda>args. 10 + length args),
     delete = Some (\<lambda>args. 20 + length args)\<rparr>"

definition archive :: "nat provider" where
  "archive = External \<lparr>get = Some (\<lambda>args. length args), save = None,
     delete = Some (\<lambda>args. 20 + length args)\<rparr>"

definition ledger :: "nat provider" where
  "ledger = External \<lparr>get = Some (\<lambda>args. length args), save = Some (\<lambda>args. 10 + length args),
     delete = None\<rparr>"

definition configured :: "nat api" where
  "configured = addProvider ''n'' reader (supersecretSetFallbackProvider (Some writer) ObjectAPI)"

definition stocked :: "nat api" where
  "stocked = addProvider ''a'' archive (addProvider ''l'' ledger configured)"

text \<open>
  A domain object of the documented shape (\<^verbatim>\<open>@typedef DomainObject\<close>): its
  \<^verbatim>\<open>identifier\<close> property is the identifier \<^verbatim>\<open>{ namespace: 'n', key: 'x' }\<close>.
\<close>

definition folder :: jsval where
  "folder = Obj 3 [(''identifier'', Identifier 1 ''n'' ''x''), (''type'', Str ''folder''),
     (''name'', Str ''My Items'')] (Inr ''[object Object]'')"

section \<open>Basic facts\<close>

lemma strict_eq_Str: "strict_eq v (Str s) = (v = Str s)"
  by (cases v) auto

lemma strict_eq_refl: "strict_eq v v"
  by (cases v) auto

lemma own_prop_Identifier:
  "own_prop [(''namespace'', Str ns), (''key'', Str k)] ''identifier'' = Undefined"
  "own_prop [(''namespace'', Str ns), (''key'', Str k)] ''namespace'' = Str ns"
  by (simp_all add: own_prop_def)

lemma getProvider_Obj:
  "getProvider this (Obj a fs c) =
     (if own_prop fs ''identifier'' = Str ''ROOT'' then Inr (Some (Provider RootProvider))
      else (case ToPropertyKey (own_prop fs ''namespace'') of
              Inl e \<Rightarrow> Inl e
            | Inr nm \<Rightarrow>
                Inr (case providers_get this nm of
                       Some v \<Rightarrow> Some v
                     | None \<Rightarrow> map_option Provider (fallbackProvider this))))"
  by (simp add: getProvider_def strict_eq_Str split: option.splits sum.splits)

lemma getProvider_Identifier:
  "getProvider this (Identifier a ns k) =
     Inr (case providers_get this ns of
            Some v \<Rightarrow> Some v
          | None \<Rightarrow> map_option Provider (fallbackProvider this))"
  by (simp add: Identifier_def getProvider_Obj own_prop_Identifier)

lemma getProvider_nullish:
  "getProvider this Undefined = Inl TypeError" "getProvider this Null = Inl TypeError"
  by (simp_all add: getProvider_def)

text \<open>
  A namespace that throws when it is converted to a property name makes \<^verbatim>\<open>getProvider\<close>
  throw.
\<close>

lemma getProvider_namespace_throws:
  "own_prop fs ''identifier'' \<noteq> Str ''ROOT'' \<Longrightarrow> own_prop fs ''namespace'' = Obj b gs (Inl e) \<Longrightarrow>
     getProvider this (Obj a fs c) = Inl e"
  by (simp add: getProvider_Obj)

text \<open>
  While the prototype of \<^verbatim>\<open>providers\<close> is \<^verbatim>\<open>Object.prototype\<close>, a name that
  \<^verbatim>\<open>Object.prototype\<close> does not have is looked up among the own properties only.
\<close>

lemma providers_get_ordinary:
  "providers_prototype this = None \<Longrightarrow> nm \<noteq> ''__proto__'' \<Longrightarrow>
     nm \<notin> set Object_prototype_functions \<Longrightarrow>
     providers_get this nm = map_option Provider (providers this nm)"
  by (simp add: providers_get_def Object_prototype_get_def split: option.splits)

text \<open>
  The order of \<^verbatim>\<open>getProvider\<close> for the namespaces that \<^verbatim>\<open>Object.prototype\<close> has no
  property for: the registered provider, else the fallback, else \<^verbatim>\<open>undefined\<close>.
\<close>

lemma getProvider_ordinary:
  "providers_prototype this = None \<Longrightarrow> ns \<noteq> ''__proto__'' \<Longrightarrow>
     ns \<notin> set Object_prototype_functions \<Longrightarrow>
     getProvider this (Identifier a ns k) =
       Inr (map_option Provider
         (case providers this ns of Some p \<Rightarrow> Some p | None \<Rightarrow> fallbackProvider this))"
  by (simp add: getProvider_Identifier providers_get_ordinary split: option.splits)

lemma dispatcher_Cons:
  "dispatcher m this (key # rest) =
     (case getProvider this key of
        Inl e \<Rightarrow> Inl e
      | Inr None \<Rightarrow> Inl (Error ''No Provider Matched'')
      | Inr (Some provider) \<Rightarrow>
          (case found_method provider m of
             None \<Rightarrow> Inl (Error (''Provider does not support ['' @ method_str m @ ''].''))
           | Some f \<Rightarrow> Inr (f this (key # rest))))"
  by (simp add: dispatcher_def)

text \<open>
  With nothing registered for such a namespace and no fallback, every dispatched method
  throws \<^verbatim>\<open>No Provider Matched\<close>.
\<close>

lemma dispatcher_no_provider_ordinary:
  "providers_prototype this = None \<Longrightarrow> ns \<noteq> ''__proto__'' \<Longrightarrow>
     ns \<notin> set Object_prototype_functions \<Longrightarrow>
     providers this ns = None \<Longrightarrow> fallbackProvider this = None \<Longrightarrow>
     dispatcher m this (Identifier a ns k # rest) = Inl (Error ''No Provider Matched'')"
  by (simp add: dispatcher_Cons getProvider_ordinary)

text \<open>
  A registration under a name other than \<^verbatim>\<open>__proto__\<close> sets that own property and
  nothing else.
\<close>

lemma addProvider_ordinary:
  "ns \<noteq> ''__proto__'' \<Longrightarrow>
     providers (addProvider ns p this) = (providers this)(ns \<mapsto> p) \<and>
     providers_prototype (addProvider ns p this) = providers_prototype this \<and>
     fallbackProvider (addProvider ns p this) = fallbackProvider this \<and>
     rootRegistry (addProvider ns p this) = rootRegistry this"
  by (simp add: addProvider_def)

lemma keep_root_Obj:
  "keep_root (Obj a fs c) (Obj b gs d) =
     Inr (\<not> (strict_eq (own_prop gs ''identifier'') (own_prop fs ''identifier'') \<and>
              strict_eq (own_prop gs ''namespace'') (own_prop fs ''namespace'')))"
  by (simp add: keep_root_def)

lemma keep_root_Identifier:
  "keep_root (Identifier a ns k) (Identifier b ns' k') = Inr (ns' \<noteq> ns)"
  by (simp add: Identifier_def keep_root_Obj own_prop_Identifier)

text \<open>
  On a list of values for which the callback does not throw, \<open>filter_js\<close> is the list
  filter.
\<close>

lemma filter_js_map:
  "(\<And>x. f (h x) = Inr (g x)) \<Longrightarrow> filter_js f (map h xs) = Inr (map h (filter g xs))"
  by (induction xs) simp_all

text \<open>
  The part of the dispatcher's contract that holds for all three methods alike: the
  resolved provider's method receives the whole argument list and its result is what the
  call returns.
\<close>

lemma dispatcher_forwards:
  "getProvider this key = Inr (Some (Provider (External p))) \<Longrightarrow>
     (get p = Some f \<longrightarrow> dispatcher Get this (key # rest) = Inr (Returned (f (key # rest)))) \<and>
     (save p = Some f \<longrightarrow> dispatcher Save this (key # rest) = Inr (Returned (f (key # rest)))) \<and>
     (delete p = Some f \<longrightarrow>
        dispatcher Delete this (key # rest) = Inr (Returned (f (key # rest))))"
  by (simp add: dispatcher_Cons)

text \<open>
  The roots in order: on an empty registry, \<^verbatim>\<open>addRoot(a); addRoot(b)\<close> gives the
  composition \<^verbatim>\<open>[b, a]\<close>; \<^verbatim>\<open>removeRoot(a)\<close> then leaves \<^verbatim>\<open>[b]\<close> when the namespaces of the
  two objects are not strictly equal, and nothing when \<open>b\<close> is \<open>a\<close> itself.
\<close>

lemma addRoot_then_removeRoot:
  "rootRegistry this = [] \<Longrightarrow>
     rootProvider_get (addRoot b (addRoot a this)) args =
       Resolved \<lparr>name = ''The root object'', type = ''root'', composition = [b, a]\<rparr> \<and>
     (\<not> strict_eq (own_prop gs ''namespace'') (own_prop fs ''namespace'') \<longrightarrow>
        removeRoot (Obj i fs c) (addRoot (Obj j gs d) (addRoot (Obj i fs c) this))
          = Inr (this\<lparr>rootRegistry := [Obj j gs d]\<rparr>)) \<and>
     removeRoot (Obj i fs c) (addRoot (Obj i fs c) (addRoot (Obj i fs c) this)) = Inr this"
  by (simp add: rootProvider_get_def addRoot_def removeRoot_def keep_root_Obj strict_eq_refl)

lemma providers_get_stocked:
  "providers_get stocked ''a'' = Some (Provider archive)"
  "providers_get stocked ''l'' = Some (Provider ledger)"
  "providers_get stocked ''m'' = None"
  "fallbackProvider stocked = Some writer"
  by (simp_all add: providers_get_def Object_prototype_get_def Object_prototype_functions_def
      stocked_def configured_def addProvider_def supersecretSetFallbackProvider_def ObjectAPI_def)

section \<open>Provider lookup\<close>

text \<open>
  Claim C1. With a fallback provider set and nothing registered, the identifier
  \<^verbatim>\<open>{ namespace: 'toString', key: 'x' }\<close> resolves neither to the fallback provider nor,
  without a fallback, to \<^verbatim>\<open>undefined\<close>: \<^verbatim>\<open>getProvider\<close> returns the function
  \<^verbatim>\<open>Object.prototype.toString\<close>, which the read of \<^verbatim>\<open>providers\<close> inherits.
\<close>

theorem getProvider_inherited_member:
  "providers (supersecretSetFallbackProvider (Some writer) ObjectAPI) ''toString'' = None \<and>
   getProvider (supersecretSetFallbackProvider (Some writer) ObjectAPI)
       (Identifier 1 ''toString'' ''x'')
     = Inr (Some (ObjectPrototypeMember ''toString'')) \<and>
   getProvider (ObjectAPI :: nat api) (Identifier 1 ''toString'' ''x'')
     = Inr (Some (ObjectPrototypeMember ''toString''))"
  by (simp add: getProvider_Identifier providers_get_def Object_prototype_get_def
      Object_prototype_functions_def supersecretSetFallbackProvider_def ObjectAPI_def)

section \<open>Failures of the dispatcher\<close>

text \<open>
  Claim C2. On a new API, with no provider registered and no fallback, \<^verbatim>\<open>get\<close>, \<^verbatim>\<open>save\<close>
  and \<^verbatim>\<open>delete\<close> on the identifier \<^verbatim>\<open>{ namespace: 'constructor', key: 'y' }\<close> do not throw
  \<^verbatim>\<open>No Provider Matched\<close>: the lookup finds the inherited \<^verbatim>\<open>constructor\<close>, and the calls
  throw \<^verbatim>\<open>Provider does not support [get].\<close>, \<^verbatim>\<open>[save].\<close> and \<^verbatim>\<open>[delete].\<close>
\<close>

theorem dispatcher_inherited_namespace:
  "providers (ObjectAPI :: nat api) ''constructor'' = None \<and>
   fallbackProvider (ObjectAPI :: nat api) = None \<and>
   dispatcher Get (ObjectAPI :: nat api) [Identifier 1 ''constructor'' ''y'']
     = Inl (Error ''Provider does not support [get].'') \<and>
   dispatcher Save (ObjectAPI :: nat api) [Identifier 1 ''constructor'' ''y'']
     = Inl (Error ''Provider does not support [save].'') \<and>
   dispatcher Delete (ObjectAPI :: nat api) [Identifier 1 ''constructor'' ''y'']
     = Inl (Error ''Provider does not support [delete].'')"
  by (simp add: dispatcher_Cons getProvider_Identifier providers_get_def Object_prototype_get_def
      Object_prototype_functions_def ObjectAPI_def)

text \<open>
  Claim C3. When what a key resolves to has no property for the requested method, the
  dispatched call throws at once, and the message names that method: it is
  \<^verbatim>\<open>Provider does not support [save].\<close> for \<^verbatim>\<open>save\<close>,
  \<^verbatim>\<open>Provider does not support [delete].\<close> for \<^verbatim>\<open>delete\<close> and
  \<^verbatim>\<open>Provider does not support [get].\<close> for \<^verbatim>\<open>get\<close>. Nothing is assumed about the other
  two methods of the provider.
\<close>

theorem dispatcher_unsupported_method:
  "getProvider this key = Inr (Some provider) \<Longrightarrow>
     (found_method provider Save = None \<longrightarrow>
        dispatcher Save this (key # rest) = Inl (Error ''Provider does not support [save].'')) \<and>
     (found_method provider Delete = None \<longrightarrow>
        dispatcher Delete this (key # rest)
          = Inl (Error ''Provider does not support [delete].'')) \<and>
     (found_method provider Get = None \<longrightarrow>
        dispatcher Get this (key # rest) = Inl (Error ''Provider does not support [get].''))"
  by (simp add: dispatcher_Cons)

theorem dispatcher_unsupported_method_witness:
  "found_method (Provider archive) Save = None \<and>
   found_method (Provider archive) Get \<noteq> None \<and>
   found_method (Provider archive) Delete \<noteq> None \<and>
   dispatcher Save stocked [Identifier 1 ''a'' ''x'']
     = Inl (Error ''Provider does not support [save].'') \<and>
   found_method (Provider ledger) Delete = None \<and>
   found_method (Provider ledger) Get \<noteq> None \<and>
   found_method (Provider ledger) Save \<noteq> None \<and>
   dispatcher Delete stocked [Identifier 2 ''l'' ''x'']
     = Inl (Error ''Provider does not support [delete].'') \<and>
   found_method (Provider writer) Get = None \<and>
   found_method (Provider writer) Save \<noteq> None \<and>
   found_method (Provider writer) Delete \<noteq> None \<and>
   dispatcher Get stocked [Identifier 3 ''m'' ''x'']
     = Inl (Error ''Provider does not support [get].'')"
proof -
  have a: "getProvider stocked (Identifier 1 ''a'' ''x'') = Inr (Some (Provider archive))"
    and l: "getProvider stocked (Identifier 2 ''l'' ''x'') = Inr (Some (Provider ledger))"
    and m: "getProvider stocked (Identifier 3 ''m'' ''x'') = Inr (Some (Provider writer))"
    by (simp_all add: getProvider_Identifier providers_get_stocked)
  have s: "found_method (Provider archive) Save = None"
    and d: "found_method (Provider ledger) Delete = None"
    and g: "found_method (Provider writer) Get = None"
    by (simp_all add: archive_def ledger_def writer_def)
  from dispatcher_unsupported_method [OF a, of "[]"] dispatcher_unsupported_method [OF l, of "[]"]
    dispatcher_unsupported_method [OF m, of "[]"] s d g
  show ?thesis
    by (simp add: archive_def ledger_def writer_def)
qed

section \<open>Routing of save and delete\<close>

text \<open>
  Claim C5. The dispatcher takes its routing key from \<^verbatim>\<open>arguments[0]\<close> for all three
  methods. With a provider registered for the namespace \<^verbatim>\<open>n\<close>, the identifier
  \<^verbatim>\<open>{ namespace: 'n', key: 'x' }\<close> resolves to that provider, and \<^verbatim>\<open>save\<close> called with
  the identifier itself reaches the provider's method with the one argument; \<^verbatim>\<open>save\<close>
  called with a domain object that embeds this identifier throws
  \<^verbatim>\<open>No Provider Matched\<close>, because the namespace is read from the domain object itself.
\<close>

theorem save_routes_on_domain_object:
  "getProvider (addProvider ''n'' writer ObjectAPI) (Identifier 1 ''n'' ''x'')
     = Inr (Some (Provider writer)) \<and>
   dispatcher Save (addProvider ''n'' writer ObjectAPI) [Identifier 1 ''n'' ''x'']
     = Inr (Returned 11) \<and>
   dispatcher Save (addProvider ''n'' writer ObjectAPI) [folder]
     = Inl (Error ''No Provider Matched'')"
  by (simp add: dispatcher_Cons getProvider_Obj folder_def Identifier_def own_prop_def
      providers_get_def Object_prototype_get_def Object_prototype_functions_def
      addProvider_def ObjectAPI_def writer_def)

section \<open>The root provider\<close>

text \<open>
  Claim C6. The root provider has a \<^verbatim>\<open>get\<close> method; for every argument list and every
  state of the API it returns a resolved promise, never a rejected one, whose object has
  the name \<^verbatim>\<open>The root object\<close>, the type \<^verbatim>\<open>root\<close> and as composition the root
  registry as it is when the method is called: after a further \<^verbatim>\<open>addRoot\<close> the new entry
  is in it. A dispatched \<^verbatim>\<open>get\<close> with a key whose \<^verbatim>\<open>identifier\<close> is \<^verbatim>\<open>ROOT\<close> returns this
  promise.
\<close>

theorem rootProvider_get_resolves:
  "provider_method RootProvider Get
     = Some (\<lambda>this args. RootPromise (rootProvider_get this args)) \<and>
   rootProvider_get this args =
     Resolved \<lparr>name = ''The root object'', type = ''root'', composition = rootRegistry this\<rparr> \<and>
   rootProvider_get this args \<noteq> Rejected e \<and>
   rootProvider_get (addRoot k this) args =
     Resolved \<lparr>name = ''The root object'', type = ''root'',
       composition = k # rootRegistry this\<rparr> \<and>
   (own_prop fs ''identifier'' = Str ''ROOT'' \<longrightarrow>
      dispatcher Get this (Obj a fs c # rest) =
        Inr (RootPromise (Resolved \<lparr>name = ''The root object'', type = ''root'',
          composition = rootRegistry this\<rparr>)))"
  by (simp add: rootProvider_get_def addRoot_def dispatcher_Cons getProvider_Obj)

theorem rootProvider_get_resolves_witness:
  "rootProvider_get (ObjectAPI :: nat api) [] =
     Resolved \<lparr>name = ''The root object'', type = ''root'', composition = []\<rparr> \<and>
   rootProvider_get (addRoot (Identifier 1 ''n'' ''x'') (ObjectAPI :: nat api)) [Str ''ignored''] =
     Resolved \<lparr>name = ''The root object'', type = ''root'',
       composition = [Identifier 1 ''n'' ''x'']\<rparr> \<and>
   dispatcher Get (addRoot (Identifier 1 ''n'' ''x'') configured)
       [Obj 0 [(''identifier'', Str ''ROOT''), (''namespace'', Str ''n'')]
          (Inr ''[object Object]'')] =
     Inr (RootPromise (Resolved \<lparr>name = ''The root object'', type = ''root'',
       composition = [Identifier 1 ''n'' ''x'']\<rparr>))"
  using
    rootProvider_get_resolves [where this = "ObjectAPI :: nat api" and args = "[]"]
    rootProvider_get_resolves [where this = "ObjectAPI :: nat api" and args = "[Str ''ignored'']"
      and k = "Identifier 1 ''n'' ''x''"]
    rootProvider_get_resolves [where this = "addRoot (Identifier 1 ''n'' ''x'') configured"
      and fs = "[(''identifier'', Str ''ROOT''), (''namespace'', Str ''n'')]" and a = 0
      and c = "Inr ''[object Object]''" and rest = "[]"]
  by (simp add: own_prop_def ObjectAPI_def addRoot_def configured_def addProvider_def
      supersecretSetFallbackProvider_def)

text \<open>
  Claim C9. The root provider has no \<^verbatim>\<open>save\<close> and no \<^verbatim>\<open>delete\<close>: for every key whose
  \<^verbatim>\<open>identifier\<close> is \<^verbatim>\<open>ROOT\<close>, the dispatched \<^verbatim>\<open>save\<close> and \<^verbatim>\<open>delete\<close> throw
  \<^verbatim>\<open>Provider does not support [save].\<close> and \<^verbatim>\<open>Provider does not support [delete].\<close>,
  whatever providers are registered and whatever the fallback is.
\<close>

theorem root_save_delete_unsupported:
  "own_prop fs ''identifier'' = Str ''ROOT'' \<Longrightarrow>
     dispatcher Save this (Obj a fs c # rest)
       = Inl (Error ''Provider does not support [save].'') \<and>
     dispatcher Delete this (Obj a fs c # rest)
       = Inl (Error ''Provider does not support [delete].'')"
  by (simp add: dispatcher_Cons getProvider_Obj)

theorem root_save_delete_unsupported_witness:
  "providers configured ''n'' = Some reader \<and> fallbackProvider configured = Some writer \<and>
   dispatcher Save configured
       [Obj 0 [(''identifier'', Str ''ROOT''), (''namespace'', Str ''n'')]
          (Inr ''[object Object]'')]
     = Inl (Error ''Provider does not support [save].'') \<and>
   dispatcher Delete configured
       [Obj 0 [(''identifier'', Str ''ROOT''), (''namespace'', Str ''n'')]
          (Inr ''[object Object]'')]
     = Inl (Error ''Provider does not support [delete].'')"
proof -
  have r: "own_prop [(''identifier'', Str ''ROOT''), (''namespace'', Str ''n'')] ''identifier''
    = Str ''ROOT''"
    by (simp add: own_prop_def)
  from root_save_delete_unsupported [OF r, of configured 0 "Inr ''[object Object]''" "[]"]
  show ?thesis
    by (simp add: configured_def supersecretSetFallbackProvider_def ObjectAPI_def addProvider_def)
qed

section \<open>Registering a provider\<close>

text \<open>
  Claim C8. On a new API, \<^verbatim>\<open>addProvider('__proto__', writer)\<close> adds no own property to
  \<^verbatim>\<open>providers\<close> and changes what other namespaces resolve to: the identifier
  \<^verbatim>\<open>{ namespace: 'save', key: 'x' }\<close> resolved to \<^verbatim>\<open>undefined\<close> before, and resolves to the
  provider's \<^verbatim>\<open>save\<close> function afterwards, so that a dispatched \<^verbatim>\<open>get\<close> on it throws
  another error than before.
\<close>

theorem addProvider_proto_changes_lookups:
  "providers (addProvider ''__proto__'' writer ObjectAPI) = providers (ObjectAPI :: nat api) \<and>
   getProvider (ObjectAPI :: nat api) (Identifier 1 ''save'' ''x'') = Inr None \<and>
   getProvider (addProvider ''__proto__'' writer ObjectAPI) (Identifier 1 ''save'' ''x'')
     = Inr (Some (MethodFunction writer Save)) \<and>
   dispatcher Get (ObjectAPI :: nat api) [Identifier 1 ''save'' ''x'']
     = Inl (Error ''No Provider Matched'') \<and>
   dispatcher Get (addProvider ''__proto__'' writer ObjectAPI) [Identifier 1 ''save'' ''x'']
     = Inl (Error ''Provider does not support [get].'')"
  by (simp add: dispatcher_Cons getProvider_Identifier providers_get_def Object_prototype_get_def
      Object_prototype_functions_def addProvider_def ObjectAPI_def writer_def)

section \<open>Removing roots\<close>

text \<open>
  Claim C10. \<^verbatim>\<open>removeRoot\<close> decides by the properties \<^verbatim>\<open>identifier\<close> and \<^verbatim>\<open>namespace\<close>
  alone: with an object as argument and objects as entries, an entry goes exactly when
  both of these are strictly equal to the argument's; the property \<^verbatim>\<open>key\<close> is never
  read. So with an argument and entries of the documented shape \<^verbatim>\<open>{ namespace, key }\<close>,
  where \<^verbatim>\<open>identifier\<close> is absent on both sides, the entries that go are all those in the
  argument's namespace, whatever their keys, and the entries of other namespaces stay.
\<close>

theorem removeRoot_ignores_key:
  "removeRoot (Obj a fs c) (this\<lparr>rootRegistry := map (\<lambda>(b, gs, d). Obj b gs d) es\<rparr>) =
     Inr (this\<lparr>rootRegistry := map (\<lambda>(b, gs, d). Obj b gs d)
       (filter (\<lambda>(b, gs, d).
          \<not> (strict_eq (own_prop gs ''identifier'') (own_prop fs ''identifier'') \<and>
             strict_eq (own_prop gs ''namespace'') (own_prop fs ''namespace''))) es)\<rparr>) \<and>
   removeRoot (Identifier a ns k)
       (this\<lparr>rootRegistry := map (\<lambda>(b, ns', k'). Identifier b ns' k') ids\<rparr>) =
     Inr (this\<lparr>rootRegistry := map (\<lambda>(b, ns', k'). Identifier b ns' k')
       (filter (\<lambda>(b, ns', k'). ns' \<noteq> ns) ids)\<rparr>)"
proof
  have "filter_js (keep_root (Obj a fs c)) (map (\<lambda>(b, gs, d). Obj b gs d) es) =
     Inr (map (\<lambda>(b, gs, d). Obj b gs d)
       (filter (\<lambda>(b, gs, d).
          \<not> (strict_eq (own_prop gs ''identifier'') (own_prop fs ''identifier'') \<and>
             strict_eq (own_prop gs ''namespace'') (own_prop fs ''namespace''))) es))"
    by (rule filter_js_map) (simp add: keep_root_Obj split: prod.splits)
  then show "removeRoot (Obj a fs c)
       (this\<lparr>rootRegistry := map (\<lambda>(b, gs, d). Obj b gs d) es\<rparr>) =
     Inr (this\<lparr>rootRegistry := map (\<lambda>(b, gs, d). Obj b gs d)
       (filter (\<lambda>(b, gs, d).
          \<not> (strict_eq (own_prop gs ''identifier'') (own_prop fs ''identifier'') \<and>
             strict_eq (own_prop gs ''namespace'') (own_prop fs ''namespace''))) es)\<rparr>)"
    by (simp add: removeRoot_def)
next
  have "filter_js (keep_root (Identifier a ns k))
      (map (\<lambda>(b, ns', k'). Identifier b ns' k') ids) =
     Inr (map (\<lambda>(b, ns', k'). Identifier b ns' k') (filter (\<lambda>(b, ns', k'). ns' \<noteq> ns) ids))"
    by (rule filter_js_map) (simp add: keep_root_Identifier split: prod.splits)
  then show "removeRoot (Identifier a ns k)
       (this\<lparr>rootRegistry := map (\<lambda>(b, ns', k'). Identifier b ns' k') ids\<rparr>) =
     Inr (this\<lparr>rootRegistry := map (\<lambda>(b, ns', k'). Identifier b ns' k')
       (filter (\<lambda>(b, ns', k'). ns' \<noteq> ns) ids)\<rparr>)"
    by (simp add: removeRoot_def)
qed

theorem removeRoot_ignores_key_witness:
  "removeRoot (Identifier 1 ''n'' ''a'')
     ((ObjectAPI :: nat api)\<lparr>rootRegistry :=
        [Identifier 2 ''n'' ''b'', Identifier 3 ''m'' ''a'', Identifier 4 ''n'' ''c'']\<rparr>)
   = Inr (ObjectAPI\<lparr>rootRegistry := [Identifier 3 ''m'' ''a'']\<rparr>)"
  using removeRoot_ignores_key [where a = 1 and this = "ObjectAPI :: nat api" and ns = "''n''"
      and k = "''a''" and ids = "[(2, ''n'', ''b''), (3, ''m'', ''a''), (4, ''n'', ''c'')]"]
  by simp

text \<open>
  Claim C4. With the single root \<^verbatim>\<open>{ namespace: 'n', key: 'b' }\<close> registered,
  \<^verbatim>\<open>removeRoot({ namespace: 'n', key: 'a' })\<close> leaves the registry empty: the entry is
  removed although its key is not the argument's.
\<close>

theorem removeRoot_removes_other_key:
  "removeRoot (Identifier 1 ''n'' ''a'') (addRoot (Identifier 2 ''n'' ''b'') (ObjectAPI :: nat api))
     = Inr ObjectAPI"
  by (simp add: removeRoot_def addRoot_def ObjectAPI_def keep_root_Identifier)

section \<open>Order of the roots\<close>

text \<open>
  Claim C7. On a new API, with the two identifiers \<^verbatim>\<open>a = { namespace: 'n', key: 'a' }\<close>
  and \<^verbatim>\<open>b = { namespace: 'n', key: 'b' }\<close>: after \<^verbatim>\<open>addRoot(a); addRoot(b)\<close> the root
  object's composition is \<^verbatim>\<open>[b, a]\<close>, and \<^verbatim>\<open>removeRoot(a)\<close> then leaves the registry empty,
  so that the composition is \<^verbatim>\<open>[]\<close> and not \<^verbatim>\<open>[b]\<close>.
\<close>

theorem removeRoot_same_namespace_pair:
  "rootProvider_get
       (addRoot (Identifier 2 ''n'' ''b'') (addRoot (Identifier 1 ''n'' ''a'') (ObjectAPI :: nat api)))
       [] =
     Resolved \<lparr>name = ''The root object'', type = ''root'',
       composition = [Identifier 2 ''n'' ''b'', Identifier 1 ''n'' ''a'']\<rparr> \<and>
   removeRoot (Identifier 1 ''n'' ''a'')
       (addRoot (Identifier 2 ''n'' ''b'') (addRoot (Identifier 1 ''n'' ''a'') (ObjectAPI :: nat api)))
     = Inr ObjectAPI \<and>
   rootProvider_get (ObjectAPI :: nat api) [] =
     Resolved \<lparr>name = ''The root object'', type = ''root'', composition = []\<rparr>"
  by (simp add: rootProvider_get_def removeRoot_def addRoot_def ObjectAPI_def
      keep_root_Identifier)

end
